theory Spec2Isabelle
  imports Complex_Main "HOL-Library.Word"
begin

section \<open>The waveform renderer of the microphone visualiser\<close>

text \<open>
  The component \<open>Home\<close> captures a microphone stream, reads the analyser's time-domain
  bytes once per display frame and strokes a smoothed trace onto a canvas. This theory
  embeds the body of \<open>draw\<close> (the per-frame routine), \<open>startListening\<close> and
  \<open>stopListening\<close> together with the part of the browser they act on.

  JavaScript numbers are modelled as \<open>real\<close>: the arithmetic of the model is exact,
  rounding of IEEE doubles is not represented. The analyser's buffer is a
  \<open>Uint8Array\<close>, so a sample is an \<open>8 word\<close>; the width and height of a canvas
  are unsigned integers, so they are \<open>nat\<close>.
\<close>

subsection \<open>Data\<close>

type_synonym sample = "8 word"

text \<open>The two path operations \<open>draw\<close> issues on the 2D context.\<close>

datatype path_cmd = MoveTo real real | LineTo real real

fun path_y :: "path_cmd \<Rightarrow> real" where
  "path_y (MoveTo x y) = y"
| "path_y (LineTo x y) = y"

record canvas =
  width :: nat
  height :: nat

subsection \<open>The loop of \<open>draw\<close>\<close>

text \<open>
  \<^verbatim>\<open>
  for (let i = 0; i < bufferLength; i++) {
    const v = dataArray[i] / 128.0;
    const y = (v * canvas.height) / 2;
    const prevY = i > 0 ? ((dataArray[i - 1] / 128.0) * canvas.height) / 2 : y;
    const smoothedY = prevY + (y - prevY) * sensitivity;
    if (i === 0) { ctx.moveTo(x, smoothedY); } else { ctx.lineTo(x, smoothedY); }
    x += sliceWidth;
  }
  \<close>
  \<open>dataArray\<close> is allocated as \<open>new Uint8Array(bufferLength)\<close>, so \<open>bufferLength\<close> is
  its length and every read of the loop is in range. The arguments \<open>i\<close>, \<open>x\<close> and
  \<open>path\<close> are the loop's variables and the context's current path.
\<close>

function draw_loop ::
  "canvas \<Rightarrow> sample list \<Rightarrow> real \<Rightarrow> real \<Rightarrow> nat \<Rightarrow> real \<Rightarrow> path_cmd list \<Rightarrow> path_cmd list"
where
  "draw_loop canvas dataArray sensitivity sliceWidth i x path =
     (if i < length dataArray then
        (let v = real (unat (dataArray ! i)) / 128;
             y = (v * real (height canvas)) / 2;
             prevY = (if i > 0
                      then ((real (unat (dataArray ! (i - 1))) / 128) * real (height canvas)) / 2
                      else y);
             smoothedY = prevY + (y - prevY) * sensitivity;
             path' = (if i = 0 then path @ [MoveTo x smoothedY] else path @ [LineTo x smoothedY])
         in draw_loop canvas dataArray sensitivity sliceWidth (i + 1) (x + sliceWidth) path')
      else path)"
  by pat_completeness auto
termination
  by (relation "measure (\<lambda>(canvas, dataArray, sensitivity, sliceWidth, i, x, path).
        length dataArray - i)") auto

declare draw_loop.simps [simp del]

text \<open>
  The path of one frame: \<open>beginPath\<close>, the loop started at \<open>i = 0\<close>, \<open>x = 0\<close> with
  \<open>sliceWidth = canvas.width / bufferLength\<close>, and the closing
  \<open>ctx.lineTo(canvas.width, canvas.height / 2)\<close>. With an empty buffer the loop body
  never runs and \<open>sliceWidth\<close> is not used.
\<close>

definition draw_path :: "canvas \<Rightarrow> sample list \<Rightarrow> real \<Rightarrow> path_cmd list" where
  "draw_path canvas dataArray sensitivity =
     (let bufferLength = length dataArray;
          sliceWidth = real (width canvas) / real bufferLength
      in draw_loop canvas dataArray sensitivity sliceWidth 0 0 []
           @ [LineTo (real (width canvas)) (real (height canvas) / 2)])"

subsection \<open>The specification's quantities\<close>

text \<open>
  The specification's words: \<open>y_raw[i] = (sample[i] / 128) * H / 2\<close>; the previous
  value is the raw y of sample \<open>i - 1\<close> for \<open>i > 0\<close> and \<open>y_raw[i]\<close> itself for
  \<open>i = 0\<close>; \<open>y_smoothed[i] = prev + (y_raw[i] - prev) * sensitivity\<close>.
\<close>

definition y_raw :: "nat \<Rightarrow> sample list \<Rightarrow> nat \<Rightarrow> real" where
  "y_raw H samples i = (real (unat (samples ! i)) / 128) * real H / 2"

definition y_smoothed_prev :: "nat \<Rightarrow> sample list \<Rightarrow> nat \<Rightarrow> real" where
  "y_smoothed_prev H samples i = (if i > 0 then y_raw H samples (i - 1) else y_raw H samples i)"

definition y_smoothed :: "nat \<Rightarrow> sample list \<Rightarrow> real \<Rightarrow> nat \<Rightarrow> real" where
  "y_smoothed H samples sensitivity i =
     y_smoothed_prev H samples i
       + (y_raw H samples i - y_smoothed_prev H samples i) * sensitivity"

text \<open>The anchor the specification expects for sample \<open>i\<close> at horizontal step \<open>w\<close>.\<close>

definition anchor :: "nat \<Rightarrow> sample list \<Rightarrow> real \<Rightarrow> real \<Rightarrow> nat \<Rightarrow> path_cmd" where
  "anchor H samples sensitivity w i =
     (if i = 0 then MoveTo (real i * w) (y_smoothed H samples sensitivity i)
      else LineTo (real i * w) (y_smoothed H samples sensitivity i))"

section \<open>The capture session\<close>

subsection \<open>State\<close>

text \<open>
  The browser objects a session creates live in an explicit store: a stream, an audio
  context and a gain node are each named by their index in the list that holds them, and
  a handle (\<open>useRef\<close>) holds such an index or \<open>null\<close>. The store keeps every
  stream \<open>getUserMedia\<close> grants: those of \<open>startListening\<close> and the one that
  \<open>loadDevices\<close> opens on mount to obtain the permission.
\<close>

record media_stream =
  device :: "string option"  \<comment> \<open>the \<open>deviceId\<close> constraint: \<open>{exact: id}\<close> or \<open>undefined\<close>\<close>
  live :: bool  \<comment> \<open>its tracks have not been stopped\<close>

datatype context_state = Running | Closed

text \<open>
  What the closure \<open>draw\<close> holds: the canvas with its 2D context (absent when
  \<open>canvasRef.current\<close> or \<open>getContext\<close> gave none), the analyser (named by its audio
  context), the array \<open>dataArray\<close> and the constant \<open>sensitivity\<close> of the render whose
  \<open>startListening\<close> created the closure.
\<close>

record draw_closure =
  c_canvas :: "canvas option"
  c_analyser :: nat
  c_dataArray :: "sample list"
  c_sensitivity :: real

text \<open>The type \<open>AudioInputDevice\<close> of the source, and what \<open>enumerateDevices\<close> lists.\<close>

record AudioInputDevice =
  deviceId :: string
  label :: string

record media_device_info =
  d_kind :: string
  d_deviceId :: string
  d_label :: string

record home =
  \<comment> \<open>\<open>useState\<close>\<close>
  devices :: "AudioInputDevice list"
  selectedDeviceId :: string
  listening :: bool
  volume :: real
  sensitivity :: real
  \<comment> \<open>\<open>useRef\<close>\<close>
  canvasRef :: "canvas option"
  audioContextRef :: "nat option"
  mediaStreamRef :: "nat option"
  animationRef :: nat
  gainNodeRef :: "nat option"
  \<comment> \<open>the browser\<close>
  streams :: "media_stream list"
  contexts :: "context_state list"
  gains :: "real list"  \<comment> \<open>\<open>gain.value\<close> of each gain node\<close>
  frames :: "(nat \<times> draw_closure) list"  \<comment> \<open>pending animation-frame callbacks, by handle\<close>
  next_handle :: nat  \<comment> \<open>the handle the next \<open>requestAnimationFrame\<close> returns\<close>
  surface :: "path_cmd list"  \<comment> \<open>the path last stroked on the cleared canvas\<close>
  console :: "string list"  \<comment> \<open>messages of \<open>console.error\<close>\<close>

text \<open>
  The values of one render of \<open>Home\<close>. The handlers and closures created in a render see
  these constants, whatever the state becomes later.
\<close>

record render =
  r_selectedDeviceId :: string
  r_listening :: bool
  r_volume :: real
  r_sensitivity :: real

definition render_of :: "home \<Rightarrow> render" where
  "render_of s =
     \<lparr>r_selectedDeviceId = selectedDeviceId s, r_listening = listening s,
      r_volume = volume s, r_sensitivity = sensitivity s\<rparr>"

text \<open>
  The component at its first render, before \<open>loadDevices\<close> has settled: the initial
  values of \<open>useState\<close> and \<open>useRef\<close>, and the canvas of the markup
  (\<open>width={300} height={70}\<close>).
\<close>

definition init :: home where
  "init =
     \<lparr>devices = [], selectedDeviceId = [], listening = False, volume = 1, sensitivity = 2 / 10,
      canvasRef = Some \<lparr>width = 300, height = 70\<rparr>,
      audioContextRef = None, mediaStreamRef = None, animationRef = 0, gainNodeRef = None,
      streams = [], contexts = [], gains = [], frames = [], next_handle = 1,
      surface = [], console = []\<rparr>"

subsection \<open>Browser operations\<close>

text \<open>
  \<open>analyser.getByteTimeDomainData(dataArray)\<close> copies the analyser's current block into
  the array: elements beyond the array are dropped, elements of the array beyond the
  block are left as they were.
\<close>

definition getByteTimeDomainData :: "sample list \<Rightarrow> sample list \<Rightarrow> sample list" where
  "getByteTimeDomainData block dataArray =
     take (length dataArray) block @ drop (length block) dataArray"

definition requestAnimationFrame :: "draw_closure \<Rightarrow> home \<Rightarrow> nat \<times> home" where
  "requestAnimationFrame callback s =
     (next_handle s,
      s\<lparr>frames := frames s @ [(next_handle s, callback)], next_handle := next_handle s + 1\<rparr>)"

definition cancelAnimationFrame :: "nat \<Rightarrow> home \<Rightarrow> home" where
  "cancelAnimationFrame handle s = s\<lparr>frames := filter (\<lambda>(h, callback). h \<noteq> handle) (frames s)\<rparr>"

text \<open>\<open>stream.getTracks().forEach((track) => track.stop())\<close>\<close>

definition stop_tracks :: "nat \<Rightarrow> home \<Rightarrow> home" where
  "stop_tracks stream s = s\<lparr>streams := (streams s)[stream := (streams s ! stream)\<lparr>live := False\<rparr>]\<rparr>"

text \<open>\<open>audioContext.close()\<close>\<close>

definition close_context :: "nat \<Rightarrow> home \<Rightarrow> home" where
  "close_context ctx s = s\<lparr>contexts := (contexts s)[ctx := Closed]\<rparr>"

subsection \<open>\<open>draw\<close>\<close>

text \<open>
  One call of the closure \<open>draw\<close>, with the block the analyser holds at that moment.
  Without a canvas it returns at once and schedules nothing. Otherwise it refreshes
  \<open>dataArray\<close>, clears the canvas, builds and strokes the path (the gradient, line width
  and shadow are constants and are not modelled), and schedules itself:
  \<open>animationRef.current = requestAnimationFrame(draw)\<close>.
\<close>

definition draw :: "draw_closure \<Rightarrow> sample list \<Rightarrow> home \<Rightarrow> home" where
  "draw cl block s =
     (case c_canvas cl of
        None \<Rightarrow> s
      | Some canvas \<Rightarrow>
          (let dataArray = getByteTimeDomainData block (c_dataArray cl);
               s1 = s\<lparr>surface := draw_path canvas dataArray (c_sensitivity cl)\<rparr>;
               (handle, s2) = requestAnimationFrame (cl\<lparr>c_dataArray := dataArray\<rparr>) s1
           in s2\<lparr>animationRef := handle\<rparr>))"

text \<open>
  A display frame: the browser takes the pending callbacks and runs each of them, in the
  order of their requests.
\<close>

definition animation_frame :: "sample list \<Rightarrow> home \<Rightarrow> home" where
  "animation_frame block s =
     fold (\<lambda>(handle, cl). draw cl block) (frames s) (s\<lparr>frames := []\<rparr>)"

subsection \<open>\<open>startListening\<close> and \<open>stopListening\<close>\<close>

text \<open>
  How the browser answers one call of \<open>startListening\<close>. Two of its calls can fail:
  \<open>getUserMedia\<close> rejects (permission denied, no such device), or the stream is granted
  and the \<open>AudioContext\<close> constructor throws (no constructor, no more contexts available).
  Creating the nodes, connecting them, the canvas calls and \<open>requestAnimationFrame\<close> do
  not throw for the arguments \<open>startListening\<close> passes.
\<close>

datatype start_outcome = Rejected | NoAudioContext | Acquired

definition fftSize :: nat where
  "fftSize = 2048"

definition start_error :: string where
  "start_error = ''Erro ao iniciar escuta:''"

text \<open>
  \<open>startListening\<close> of the render \<open>r\<close>, resumed in state \<open>s\<close> when \<open>getUserMedia\<close>
  settles; before that it only reads \<open>selectedDeviceId\<close>. \<open>block\<close> is what the new
  analyser holds at the first, direct call of \<open>draw\<close>. Any exception ends in
  \<open>console.error\<close>.
\<close>

definition startListening :: "start_outcome \<Rightarrow> sample list \<Rightarrow> render \<Rightarrow> home \<Rightarrow> home" where
  "startListening outcome block r s =
     (if outcome = Rejected then s\<lparr>console := console s @ [start_error]\<rparr>
      else
        (let stream = length (streams s);
             s1 = s\<lparr>streams := streams s @
                    [\<lparr>device = (if r_selectedDeviceId r \<noteq> [] then Some (r_selectedDeviceId r)
                                else None),
                      live = True\<rparr>]\<rparr>
         in if outcome = NoAudioContext then s1\<lparr>console := console s1 @ [start_error]\<rparr>
            else
              (let audioContext = length (contexts s1);
                   s2 = s1\<lparr>contexts := contexts s1 @ [Running]\<rparr>;
                   gainNode = length (gains s2);
                   s3 = s2\<lparr>gains := gains s2 @ [r_volume r], gainNodeRef := Some gainNode\<rparr>;
                   bufferLength = fftSize;
                   dataArray = replicate bufferLength 0;
                   cl = \<lparr>c_canvas = canvasRef s3, c_analyser = audioContext,
                         c_dataArray = dataArray, c_sensitivity = r_sensitivity r\<rparr>;
                   s4 = draw cl block s3
               in s4\<lparr>mediaStreamRef := Some stream, audioContextRef := Some audioContext,
                      listening := True\<rparr>)))"

definition stopListening :: "home \<Rightarrow> home" where
  "stopListening s =
     (let s1 = (case mediaStreamRef s of
                  None \<Rightarrow> s
                | Some stream \<Rightarrow> (stop_tracks stream s)\<lparr>mediaStreamRef := None\<rparr>);
          s2 = (case audioContextRef s1 of
                  None \<Rightarrow> s1
                | Some ctx \<Rightarrow> (close_context ctx s1)\<lparr>audioContextRef := None\<rparr>);
          s3 = (if animationRef s2 \<noteq> 0 then cancelAnimationFrame (animationRef s2) s2 else s2)
      in s3\<lparr>listening := False\<rparr>)"

subsection \<open>\<open>loadDevices\<close>\<close>

text \<open>
  The effect that runs once on mount. \<open>getUserMedia({ audio: true })\<close> either rejects
  (\<open>None\<close>), which is logged, or grants a stream, which \<open>loadDevices\<close> neither keeps
  nor stops; then \<open>enumerateDevices\<close> lists the devices, the audio inputs are kept with
  a label (\<open>device.label || `Microfone ${device.deviceId}`\<close>), and the first of them, if
  any, is selected.
\<close>

definition load_error :: string where
  "load_error = ''Erro ao acessar microfones:''"

definition loadDevices :: "media_device_info list option \<Rightarrow> home \<Rightarrow> home" where
  "loadDevices reply s =
     (case reply of
        None \<Rightarrow> s\<lparr>console := console s @ [load_error]\<rparr>
      | Some allDevices \<Rightarrow>
          (let s1 = s\<lparr>streams := streams s @ [\<lparr>device = None, live = True\<rparr>]\<rparr>;
               audioInputs =
                 map (\<lambda>d. \<lparr>deviceId = d_deviceId d,
                           label = (if d_label d \<noteq> [] then d_label d
                                    else ''Microfone '' @ d_deviceId d)\<rparr>)
                     (filter (\<lambda>d. d_kind d = ''audioinput'') allDevices);
               s2 = s1\<lparr>devices := audioInputs\<rparr>
           in if length audioInputs > 0
              then s2\<lparr>selectedDeviceId := deviceId (audioInputs ! 0)\<rparr>
              else s2))"

subsection \<open>The controls\<close>

text \<open>
  The button: \<open>onClick={listening ? stopListening : startListening}\<close>. Here a click is
  handled to its end, \<open>await\<close> included, before anything else happens, so the handler
  is the one of the render of the current state.
\<close>

definition click :: "start_outcome \<Rightarrow> sample list \<Rightarrow> home \<Rightarrow> home" where
  "click outcome block s =
     (if listening s then stopListening s
      else startListening outcome block (render_of s) s)"

text \<open>
  The same button with the \<open>await\<close> made explicit. A press whose handler is
  \<open>startListening\<close> calls \<open>getUserMedia\<close> and waits, keeping the values of its
  render; the state is untouched until the browser settles the call, and a second
  press can come before that. \<open>waiting\<close> holds the calls not yet settled, oldest first.
\<close>

datatype button_event = Press | Settle start_outcome "sample list"

fun button_step :: "button_event \<Rightarrow> home \<times> render list \<Rightarrow> home \<times> render list" where
  "button_step Press (s, waiting) =
     (if listening s then (stopListening s, waiting) else (s, waiting @ [render_of s]))"
| "button_step (Settle outcome block) (s, []) = (s, [])"
| "button_step (Settle outcome block) (s, r # waiting) =
     (startListening outcome block r s, waiting)"

text \<open>
  The volume slider and the effect that follows it:
  \<open>useEffect(() => { if (gainNodeRef.current) gainNodeRef.current.gain.value = volume }, [volume])\<close>.
\<close>

definition setVolume :: "real \<Rightarrow> home \<Rightarrow> home" where
  "setVolume v s =
     (if v = volume s then s
      else
        (let s1 = s\<lparr>volume := v\<rparr>
         in case gainNodeRef s1 of
              None \<Rightarrow> s1
            | Some gainNode \<Rightarrow> s1\<lparr>gains := (gains s1)[gainNode := v]\<rparr>))"

text \<open>The sensitivity slider: \<open>setSensitivity(s)\<close>, and no effect depends on it.\<close>

definition setSensitivity :: "real \<Rightarrow> home \<Rightarrow> home" where
  "setSensitivity x s = s\<lparr>sensitivity := x\<rparr>"

subsection \<open>Some states\<close>

text \<open>A block of silence, and a block with one extreme sample followed by zeros.\<close>

definition silence :: "sample list" where
  "silence = replicate 2048 128"

definition spike :: "sample list" where
  "spike = 255 # replicate 2047 0"

text \<open>The component after one click on the button, the microphone granted.\<close>

definition started :: home where
  "started = click Acquired silence init"

text \<open>Then the volume slider is moved to 2 and the sensitivity slider to 1.\<close>

definition retuned :: home where
  "retuned = setSensitivity 1 (setVolume 2 started)"

text \<open>
  The component mounted where the browser grants the microphone and lists one audio
  input without a label and one audio output.
\<close>

definition mounted :: home where
  "mounted =
     loadDevices
       (Some [\<lparr>d_kind = ''audioinput'', d_deviceId = ''mic'', d_label = []\<rparr>,
              \<lparr>d_kind = ''audiooutput'', d_deviceId = ''out'', d_label = ''Speakers''\<rparr>])
       init"

text \<open>
  The button pressed twice before the first \<open>getUserMedia\<close> settles; then both calls
  settle, the microphone granted.
\<close>

definition pressed_twice :: home where
  "pressed_twice =
     fst (fold button_step
            [Press, Press, Settle Acquired silence, Settle Acquired silence] (mounted, []))"

section \<open>Properties of the renderer\<close>

subsection \<open>What the loop computes\<close>

lemma draw_loop_done:
  "length dataArray \<le> i \<Longrightarrow> draw_loop c dataArray s w i x p = p"
  by (subst draw_loop.simps) simp

lemma draw_loop_step:
  "i < length dataArray \<Longrightarrow>
   draw_loop c dataArray s w i (real i * w) p =
   draw_loop c dataArray s w (Suc i) (real (Suc i) * w) (p @ [anchor (height c) dataArray s w i])"
  by (subst draw_loop.simps)
     (simp add: Let_def anchor_def y_smoothed_def y_smoothed_prev_def y_raw_def algebra_simps)

lemma draw_loop_anchors:
  "i \<le> length dataArray \<Longrightarrow>
   draw_loop c dataArray s w i (real i * w) p =
   p @ map (anchor (height c) dataArray s w) [i..<length dataArray]"
proof (induction "length dataArray - i" arbitrary: i p)
  case 0
  then show ?case by (simp add: draw_loop_done)
next
  case (Suc n)
  then have lt: "i < length dataArray" and n: "n = length dataArray - Suc i"
    by simp_all
  have "draw_loop c dataArray s w i (real i * w) p =
        draw_loop c dataArray s w (Suc i) (real (Suc i) * w)
          (p @ [anchor (height c) dataArray s w i])"
    by (rule draw_loop_step [OF lt])
  also have "\<dots> = (p @ [anchor (height c) dataArray s w i])
                  @ map (anchor (height c) dataArray s w) [Suc i..<length dataArray]"
    using Suc.hyps(1) [OF n] lt by simp
  also have "\<dots> = p @ map (anchor (height c) dataArray s w) [i..<length dataArray]"
    using lt by (simp add: upt_conv_Cons)
  finally show ?case .
qed

lemma draw_path_anchors:
  "draw_path c dataArray s =
   map (anchor (height c) dataArray s (real (width c) / real (length dataArray)))
       [0..<length dataArray]
   @ [LineTo (real (width c)) (real (height c) / 2)]"
  using draw_loop_anchors [of 0 dataArray c s "real (width c) / real (length dataArray)" "[]"]
  by (simp add: draw_path_def Let_def)

lemma upt_4: "[0..<4] = [0, 1, 2, 3]"
  by (simp add: upt_rec)

subsection \<open>Bounds\<close>

lemma unat_sample_le: "unat (w :: sample) \<le> 255"
proof -
  have "unat w < 2 ^ LENGTH(8)"
    by (rule unsigned_less)
  then show ?thesis by simp
qed

lemma scale_bounds:
  fixes u h :: real
  assumes "0 \<le> u" "u \<le> 255" "0 \<le> h"
  shows "0 \<le> u / 128 * h / 2 \<and> u / 128 * h / 2 \<le> 255 / 128 * (h / 2)"
proof -
  have "u * h \<le> 255 * h"
    using assms by (intro mult_right_mono)
  moreover have "0 \<le> u * h"
    using assms by (intro mult_nonneg_nonneg)
  ultimately show ?thesis
    by (simp add: field_simps)
qed

lemma y_raw_bounds:
  "0 \<le> y_raw H d i \<and> y_raw H d i \<le> 255 / 128 * (real H / 2)"
proof -
  have "real (unat (d ! i)) \<le> real 255"
    using unat_sample_le [of "d ! i"] by (rule of_nat_mono)
  then have "real (unat (d ! i)) \<le> 255"
    by (simp only: of_nat_numeral)
  moreover have "0 \<le> real (unat (d ! i))" "0 \<le> real H"
    by (rule of_nat_0_le_iff)+
  ultimately show ?thesis
    unfolding y_raw_def by (intro scale_bounds)
qed

lemma lerp_bounds:
  fixes a b s lo hi :: real
  assumes "lo \<le> a" "a \<le> hi" "lo \<le> b" "b \<le> hi" "0 \<le> s" "s \<le> 1"
  shows "lo \<le> a + (b - a) * s \<and> a + (b - a) * s \<le> hi"
proof -
  have eq: "a + (b - a) * s = (1 - s) * a + s * b"
    by (simp add: algebra_simps)
  have "(1 - s) * a + s * b \<le> hi"
    using assms by (intro convex_bound_le) simp_all
  moreover have "(1 - s) * lo + s * lo \<le> (1 - s) * a + s * b"
    using assms by (intro add_mono mult_left_mono) simp_all
  then have "lo \<le> (1 - s) * a + s * b"
    by (simp add: algebra_simps)
  ultimately show ?thesis
    by (simp add: eq)
qed

lemma y_smoothed_prev_bounds:
  "0 \<le> y_smoothed_prev H d i \<and> y_smoothed_prev H d i \<le> 255 / 128 * (real H / 2)"
proof (cases "0 < i")
  case True
  then show ?thesis
    using y_raw_bounds [of H d "i - 1"] by (simp only: y_smoothed_prev_def if_True)
next
  case False
  then show ?thesis
    using y_raw_bounds [of H d i] by (simp only: y_smoothed_prev_def if_False)
qed

lemma y_smoothed_bounds:
  assumes "0 \<le> s" "s \<le> 1"
  shows "0 \<le> y_smoothed H d s i \<and> y_smoothed H d s i \<le> 255 / 128 * (real H / 2)"
  unfolding y_smoothed_def
  using y_smoothed_prev_bounds [of H d i] y_raw_bounds [of H d i] assms
  by (intro lerp_bounds) (rule conjunct1, assumption | rule conjunct2, assumption | assumption)+

subsection \<open>The claims about one frame\<close>

text \<open>
  C1. For every index \<open>i\<close> below the buffer's length, the y-coordinate of the \<open>i\<close>-th
  point that \<open>draw\<close> puts on the path is
  \<open>y_smoothed[i] = prev + (y_raw[i] - prev) * sensitivity\<close>, where \<open>prev\<close> is the raw
  (unsmoothed) y of sample \<open>i - 1\<close> for \<open>i > 0\<close> and \<open>y_raw[i]\<close> itself for \<open>i = 0\<close>,
  so that the first point is at \<open>y_raw[0]\<close>; \<open>y_raw[i] = (sample[i] / 128) * H / 2\<close>.
\<close>

theorem smoothing_formula:
  "i < length dataArray \<Longrightarrow>
   path_y (draw_path c dataArray s ! i) = y_smoothed (height c) dataArray s i
   \<and> y_smoothed (height c) dataArray s i =
       (if i = 0 then y_raw (height c) dataArray 0
        else y_raw (height c) dataArray (i - 1)
             + (y_raw (height c) dataArray i - y_raw (height c) dataArray (i - 1)) * s)
   \<and> y_raw (height c) dataArray i
       = (real (unat (dataArray ! i)) / 128) * real (height c) / 2"
  by (simp add: draw_path_anchors nth_append anchor_def y_smoothed_def y_smoothed_prev_def)
     (simp add: y_raw_def)

theorem smoothing_formula_witness:
  "(1::nat) < length [255, 0, 255, 0 :: sample]
   \<and> path_y (draw_path \<lparr>width = 300, height = 70\<rparr> [255, 0, 255, 0] (1 / 5) ! 1) = 1785 / 32"
  using smoothing_formula [of 1 "[255, 0, 255, 0]" "\<lparr>width = 300, height = 70\<rparr>" "1 / 5"]
  by (simp add: y_raw_def y_smoothed_def y_smoothed_prev_def)

text \<open>
  C2. The path of one frame over a buffer of \<open>N\<close> samples has exactly \<open>N + 1\<close>
  segments; when the buffer is not empty they are: a move to \<open>(0, y_smoothed[0])\<close>,
  a line to \<open>(i * (W / N), y_smoothed[i])\<close> for \<open>i = 1, \<dots>, N - 1\<close>, and a final line
  to \<open>(W, H / 2)\<close>.
\<close>

theorem path_segments:
  "length (draw_path c dataArray s) = length dataArray + 1
   \<and> (dataArray \<noteq> [] \<longrightarrow>
        draw_path c dataArray s =
          MoveTo 0 (y_smoothed (height c) dataArray s 0)
          # map (\<lambda>i. LineTo (real i * (real (width c) / real (length dataArray)))
                          (y_smoothed (height c) dataArray s i))
                [1..<length dataArray]
          @ [LineTo (real (width c)) (real (height c) / 2)])"
proof -
  have len: "length (draw_path c dataArray s) = length dataArray + 1"
    by (simp add: draw_path_anchors)
  have shape: "draw_path c dataArray s =
          MoveTo 0 (y_smoothed (height c) dataArray s 0)
          # map (\<lambda>i. LineTo (real i * (real (width c) / real (length dataArray)))
                          (y_smoothed (height c) dataArray s i))
                [1..<length dataArray]
          @ [LineTo (real (width c)) (real (height c) / 2)]" if "dataArray \<noteq> []"
  proof -
    from that have "[0..<length dataArray] = 0 # [1..<length dataArray]"
      by (simp add: upt_conv_Cons)
    then show ?thesis
      by (simp add: draw_path_anchors anchor_def)
  qed
  from len shape show ?thesis by blast
qed

theorem path_segments_witness:
  "[255, 0, 255, 0 :: sample] \<noteq> []
   \<and> length (draw_path \<lparr>width = 300, height = 70\<rparr> [255, 0, 255, 0] (1 / 5)) = 5
   \<and> draw_path \<lparr>width = 300, height = 70\<rparr> [255, 0, 255, 0] (1 / 5) =
       [MoveTo 0 (8925 / 128), LineTo 75 (1785 / 32), LineTo 150 (1785 / 128),
        LineTo 225 (1785 / 32), LineTo 300 35]"
  using path_segments [of "\<lparr>width = 300, height = 70\<rparr>" "[255, 0, 255, 0]" "1 / 5"]
  by (simp add: upt_rec y_raw_def y_smoothed_def y_smoothed_prev_def)

text \<open>
  C3, as the code has it. For the buffer \<open>[128, 128, 128, 128]\<close> and a canvas of height
  70, every raw y and every smoothed y is \<open>35 = H / 2\<close> (not 0), whatever the
  sensitivity, and the path is the flat line at height \<open>H / 2\<close>.
\<close>

theorem silence_is_flat_at_centre:
  "draw_path \<lparr>width = W, height = 70\<rparr> [128, 128, 128, 128] s =
     [MoveTo 0 35, LineTo (real W / 4) 35, LineTo (2 * (real W / 4)) 35,
      LineTo (3 * (real W / 4)) 35, LineTo (real W) (70 / 2)]
   \<and> map (y_raw 70 [128, 128, 128, 128]) [0, 1, 2, 3] = [35, 35, 35, 35]
   \<and> map (y_smoothed 70 [128, 128, 128, 128] s) [0, 1, 2, 3] = [35, 35, 35, 35]"
  by (simp add: draw_path_anchors upt_4 anchor_def y_smoothed_def y_smoothed_prev_def y_raw_def)

text \<open>
  C3 as stated fails: on silence the raw y and the y of the first point are 35, not 0.
\<close>

theorem silence_y_not_zero:
  "y_raw 70 [128, 128, 128, 128] 0 \<noteq> 0
   \<and> path_y (draw_path \<lparr>width = 300, height = 70\<rparr> [128, 128, 128, 128] (1 / 5) ! 0) \<noteq> 0"
  by (simp add: draw_path_anchors anchor_def y_smoothed_def y_smoothed_prev_def y_raw_def)

text \<open>
  C4, as the code has it. For the buffer \<open>[255, 0, 255, 0]\<close> the raw y sequence is
  \<open>[(255 / 128) * (H / 2), 0, (255 / 128) * (H / 2), 0]\<close>, and with sensitivity 1 the
  four points of the path have exactly these y-coordinates.
\<close>

theorem extremes_reproduced:
  "map (y_raw (height c) [255, 0, 255, 0]) [0, 1, 2, 3]
     = [255 / 128 * (real (height c) / 2), 0, 255 / 128 * (real (height c) / 2), 0]
   \<and> map path_y (take 4 (draw_path c [255, 0, 255, 0] 1))
     = map (y_raw (height c) [255, 0, 255, 0]) [0, 1, 2, 3]"
  by (simp add: draw_path_anchors upt_4 anchor_def y_smoothed_def y_smoothed_prev_def y_raw_def)

text \<open>
  C4 as stated fails: at height 70 neither the raw sequence nor the path is
  \<open>[+H/2, -H/2, +H/2, -H/2]\<close>.
\<close>

theorem extremes_not_symmetric:
  "map (y_raw 70 [255, 0, 255, 0]) [0, 1, 2, 3] \<noteq> [70 / 2, - (70 / 2), 70 / 2, - (70 / 2)]
   \<and> map path_y (take 4 (draw_path \<lparr>width = 300, height = 70\<rparr> [255, 0, 255, 0] 1))
      \<noteq> [70 / 2, - (70 / 2), 70 / 2, - (70 / 2)]"
  by (simp add: draw_path_anchors upt_4 anchor_def y_smoothed_def y_smoothed_prev_def y_raw_def)

text \<open>
  C10. For every buffer of bytes and every sensitivity in \<open>[0, 1]\<close>, on a canvas of
  positive height \<open>H\<close> every y-coordinate on the path (each smoothed y and the final
  \<open>H / 2\<close>) satisfies \<open>0 \<le> y \<le> (255 / 128) * (H / 2) < H\<close>.
\<close>

theorem path_within_canvas:
  assumes "0 \<le> s" "s \<le> 1" "0 < height c" "cmd \<in> set (draw_path c dataArray s)"
  shows "0 \<le> path_y cmd \<and> path_y cmd \<le> 255 / 128 * (real (height c) / 2)
         \<and> 255 / 128 * (real (height c) / 2) < real (height c)"
proof -
  from assms(4) consider
    (anchor) i where "i < length dataArray"
      "cmd = anchor (height c) dataArray s (real (width c) / real (length dataArray)) i"
    | (final) "cmd = LineTo (real (width c)) (real (height c) / 2)"
    by (auto simp: draw_path_anchors)
  then have "0 \<le> path_y cmd \<and> path_y cmd \<le> 255 / 128 * (real (height c) / 2)"
  proof cases
    case anchor
    then have "path_y cmd = y_smoothed (height c) dataArray s i"
      by (simp add: anchor_def)
    then show ?thesis
      using y_smoothed_bounds [OF assms(1,2), of "height c" dataArray i] by simp
  next
    case final
    then show ?thesis by simp
  qed
  moreover have "255 / 128 * (real (height c) / 2) < real (height c)"
    using assms(3) by simp
  ultimately show ?thesis by simp
qed

theorem path_within_canvas_witness:
  "(0::real) \<le> 1 / 5 \<and> (1 / 5 :: real) \<le> 1 \<and> 0 < height \<lparr>width = 300, height = 70\<rparr>
   \<and> LineTo 75 (1785 / 32)
       \<in> set (draw_path \<lparr>width = 300, height = 70\<rparr> [255, 0, 255, 0] (1 / 5))
   \<and> 0 \<le> path_y (LineTo 75 (1785 / 32))
   \<and> path_y (LineTo 75 (1785 / 32))
       \<le> 255 / 128 * (real (height \<lparr>width = 300, height = 70\<rparr>) / 2)
   \<and> 255 / 128 * (real (height \<lparr>width = 300, height = 70\<rparr>) / 2)
       < real (height \<lparr>width = 300, height = 70\<rparr>)"
proof -
  have mem: "LineTo 75 (1785 / 32)
      \<in> set (draw_path \<lparr>width = 300, height = 70\<rparr> [255, 0, 255, 0] (1 / 5))"
    by (simp add: draw_path_anchors upt_4 anchor_def y_smoothed_def y_smoothed_prev_def
        y_raw_def)
  show ?thesis
    using mem path_within_canvas [of "1 / 5" "\<lparr>width = 300, height = 70\<rparr>"
        "LineTo 75 (1785 / 32)" "[255, 0, 255, 0]"]
    by simp
qed

section \<open>Properties of the capture session\<close>

subsection \<open>Evaluating the operations\<close>

lemma getByteTimeDomainData_full:
  "length block = length dataArray \<Longrightarrow> getByteTimeDomainData block dataArray = block"
  by (simp add: getByteTimeDomainData_def)

lemma length_getByteTimeDomainData:
  "length (getByteTimeDomainData block dataArray) = length dataArray"
  by (simp add: getByteTimeDomainData_def)

text \<open>A frame strokes the path of the refreshed array with the closure's sensitivity.\<close>

lemma draw_surface:
  "c_canvas cl = Some c \<Longrightarrow>
   surface (draw cl block s)
     = draw_path c (getByteTimeDomainData block (c_dataArray cl)) (c_sensitivity cl)"
  by (simp add: draw_def requestAnimationFrame_def Let_def)

lemma started_eq:
  "started =
     \<lparr>devices = [], selectedDeviceId = [], listening = True, volume = 1, sensitivity = 2 / 10,
      canvasRef = Some \<lparr>width = 300, height = 70\<rparr>,
      audioContextRef = Some 0, mediaStreamRef = Some 0, animationRef = 1, gainNodeRef = Some 0,
      streams = [\<lparr>device = None, live = True\<rparr>], contexts = [Running], gains = [1],
      frames = [(1, \<lparr>c_canvas = Some \<lparr>width = 300, height = 70\<rparr>, c_analyser = 0,
                     c_dataArray = silence, c_sensitivity = 2 / 10\<rparr>)],
      next_handle = 2,
      surface = draw_path \<lparr>width = 300, height = 70\<rparr> silence (2 / 10),
      console = []\<rparr>"
  by (simp add: started_def click_def startListening_def render_of_def init_def draw_def
      requestAnimationFrame_def getByteTimeDomainData_full fftSize_def silence_def Let_def)

lemma spike_paths_differ:
  "draw_path \<lparr>width = 300, height = 70\<rparr> spike (2 / 10)
   \<noteq> draw_path \<lparr>width = 300, height = 70\<rparr> spike 1"
proof
  assume "draw_path \<lparr>width = 300, height = 70\<rparr> spike (2 / 10)
          = draw_path \<lparr>width = 300, height = 70\<rparr> spike 1"
  then have "path_y (draw_path \<lparr>width = 300, height = 70\<rparr> spike (2 / 10) ! 1)
             = path_y (draw_path \<lparr>width = 300, height = 70\<rparr> spike 1 ! 1)"
    by simp
  then show False
    by (simp add: spike_def draw_path_anchors nth_append anchor_def y_smoothed_def
        y_smoothed_prev_def y_raw_def)
qed

text \<open>A click handled to its end is a press settled at once.\<close>

lemma click_press_settle:
  "button_step (Settle outcome block) (button_step Press (s, [])) = (click outcome block s, [])"
  by (simp add: click_def)

subsection \<open>\<open>stopListening\<close>\<close>

lemma stopListening_fields:
  "mediaStreamRef (stopListening s) = None"
  "audioContextRef (stopListening s) = None"
  "\<not> listening (stopListening s)"
  "animationRef (stopListening s) = animationRef s"
  "gainNodeRef (stopListening s) = gainNodeRef s"
  "next_handle (stopListening s) = next_handle s"
  "frames (stopListening s) =
     (if animationRef s \<noteq> 0 then filter (\<lambda>(h, callback). h \<noteq> animationRef s) (frames s)
      else frames s)"
  by (simp_all add: stopListening_def stop_tracks_def close_context_def cancelAnimationFrame_def
      Let_def split: option.splits)

lemma stopListening_streams:
  "streams (stopListening s) =
     (case mediaStreamRef s of
        None \<Rightarrow> streams s
      | Some stream \<Rightarrow> (streams s)[stream := (streams s ! stream)\<lparr>live := False\<rparr>])"
  by (simp add: stopListening_def stop_tracks_def close_context_def cancelAnimationFrame_def
      Let_def split: option.splits)

lemma stopListening_contexts:
  "contexts (stopListening s) =
     (case audioContextRef s of None \<Rightarrow> contexts s | Some ctx \<Rightarrow> (contexts s)[ctx := Closed])"
  by (simp add: stopListening_def stop_tracks_def close_context_def cancelAnimationFrame_def
      Let_def split: option.splits)

lemma listening_update_id: "\<not> listening t \<Longrightarrow> t\<lparr>listening := False\<rparr> = t"
  by (cases t) simp

lemma cancelAnimationFrame_id:
  "filter (\<lambda>(h, callback). h \<noteq> handle) (frames t) = frames t \<Longrightarrow>
   cancelAnimationFrame handle t = t"
  by (cases t) (simp add: cancelAnimationFrame_def)

lemma stopListening_fixed:
  assumes "mediaStreamRef t = None" "audioContextRef t = None" "\<not> listening t"
    and "animationRef t \<noteq> 0 \<Longrightarrow>
         filter (\<lambda>(h, callback). h \<noteq> animationRef t) (frames t) = frames t"
  shows "stopListening t = t"
proof -
  have "stopListening t =
        (if animationRef t \<noteq> 0 then cancelAnimationFrame (animationRef t) t else t)
          \<lparr>listening := False\<rparr>"
    using assms(1,2) by (simp add: stopListening_def Let_def)
  also have "\<dots> = t\<lparr>listening := False\<rparr>"
    using cancelAnimationFrame_id [OF assms(4)] by (cases "animationRef t = 0") simp_all
  also have "\<dots> = t"
    using assms(3) by (rule listening_update_id)
  finally show ?thesis .
qed

lemma stopped_eq:
  "stopListening started =
     \<lparr>devices = [], selectedDeviceId = [], listening = False, volume = 1, sensitivity = 2 / 10,
      canvasRef = Some \<lparr>width = 300, height = 70\<rparr>,
      audioContextRef = None, mediaStreamRef = None, animationRef = 1, gainNodeRef = Some 0,
      streams = [\<lparr>device = None, live = False\<rparr>], contexts = [Closed], gains = [1],
      frames = [], next_handle = 2,
      surface = draw_path \<lparr>width = 300, height = 70\<rparr> silence (2 / 10),
      console = []\<rparr>"
  by (simp add: started_eq stopListening_def stop_tracks_def close_context_def
      cancelAnimationFrame_def Let_def)

subsection \<open>The claims about \<open>stopListening\<close>\<close>

text \<open>
  C7, as the code has it. \<open>stopListening\<close> performs the three teardown steps, each
  behind a guard on its own handle only: the tracks of the stream the stream handle
  holds are stopped, the audio context the context handle holds is closed, and the
  callback whose handle \<open>animationRef\<close> holds (when it is not 0) is no longer pending,
  whatever the other handles are. The stream handle and the audio-context handle are
  null afterwards, and \<open>listening\<close> is false.
\<close>

theorem teardown_steps:
  "(mediaStreamRef s = Some stream \<longrightarrow> stream < length (streams s) \<longrightarrow>
      \<not> live (streams (stopListening s) ! stream))
   \<and> (audioContextRef s = Some ctx \<longrightarrow> ctx < length (contexts s) \<longrightarrow>
      contexts (stopListening s) ! ctx = Closed)
   \<and> (animationRef s \<noteq> 0 \<longrightarrow> animationRef s \<notin> fst ` set (frames (stopListening s)))
   \<and> mediaStreamRef (stopListening s) = None
   \<and> audioContextRef (stopListening s) = None
   \<and> \<not> listening (stopListening s)"
  by (auto simp: stopListening_fields stopListening_streams stopListening_contexts)

theorem teardown_steps_witness:
  "mediaStreamRef started = Some 0 \<and> 0 < length (streams started)
   \<and> audioContextRef started = Some 0 \<and> 0 < length (contexts started)
   \<and> animationRef started \<noteq> 0
   \<and> \<not> live (streams (stopListening started) ! 0)
   \<and> contexts (stopListening started) ! 0 = Closed
   \<and> animationRef started \<notin> fst ` set (frames (stopListening started))
   \<and> mediaStreamRef (stopListening started) = None
   \<and> audioContextRef (stopListening started) = None"
  using teardown_steps [of started 0 0]
  by (simp add: started_eq)

text \<open>
  C7 as stated fails on its last part: after a session is stopped, \<open>animationRef\<close>
  still holds the cancelled handle and \<open>gainNodeRef\<close> still holds the gain node.
\<close>

theorem teardown_keeps_two_handles:
  "animationRef (stopListening started) = 1 \<and> gainNodeRef (stopListening started) = Some 0
   \<and> animationRef (stopListening started) \<noteq> 0 \<and> gainNodeRef (stopListening started) \<noteq> None"
  by (simp add: stopped_eq)

text \<open>
  C9. When the session is idle (stream handle null, audio-context handle null, no
  pending frame, \<open>listening\<close> false), \<open>stopListening\<close> leaves the whole state as it is;
  it has no failing branch. In any state, stopping twice is the same as stopping once.
\<close>

theorem stop_when_idle:
  "(mediaStreamRef s = None \<and> audioContextRef s = None \<and> frames s = [] \<and> \<not> listening s
      \<longrightarrow> stopListening s = s)
   \<and> stopListening (stopListening s) = stopListening s"
proof -
  have idle: "stopListening s = s"
    if "mediaStreamRef s = None" "audioContextRef s = None" "frames s = []" "\<not> listening s"
    using that by (intro stopListening_fixed) simp_all
  have again: "stopListening (stopListening s) = stopListening s"
  proof (rule stopListening_fixed)
    show "filter (\<lambda>(h, callback). h \<noteq> animationRef (stopListening s)) (frames (stopListening s))
          = frames (stopListening s)" if "animationRef (stopListening s) \<noteq> 0"
      using that by (simp add: stopListening_fields)
  qed (rule stopListening_fields)+
  from idle again show ?thesis by blast
qed

theorem stop_when_idle_witness:
  "mediaStreamRef init = None \<and> audioContextRef init = None \<and> frames init = []
   \<and> \<not> listening init \<and> stopListening init = init
   \<and> mediaStreamRef (stopListening started) = None
   \<and> audioContextRef (stopListening started) = None
   \<and> frames (stopListening started) = [] \<and> \<not> listening (stopListening started)
   \<and> animationRef (stopListening started) = 1
   \<and> stopListening (stopListening started) = stopListening started"
  using stop_when_idle [of init] stop_when_idle [of "stopListening started"]
  by (simp add: stopped_eq) (simp add: init_def)

subsection \<open>The claims about \<open>startListening\<close>\<close>

text \<open>
  C6. When \<open>startListening\<close> fails, whether \<open>getUserMedia\<close> rejects or the audio
  context cannot be constructed, the failure is logged with \<open>console.error\<close>,
  \<open>listening\<close> keeps its value (so an idle session stays idle), and the stream handle,
  the audio-context handle, the gain-node handle and the pending-frame handle are the
  ones from before the attempt, as are the audio contexts, the gain nodes, the pending
  callbacks and the canvas.
\<close>

theorem failed_start_changes_no_handle:
  "outcome \<noteq> Acquired \<Longrightarrow>
   console (startListening outcome block r s) = console s @ [start_error]
   \<and> listening (startListening outcome block r s) = listening s
   \<and> (\<not> listening s \<longrightarrow> \<not> listening (startListening outcome block r s))
   \<and> mediaStreamRef (startListening outcome block r s) = mediaStreamRef s
   \<and> audioContextRef (startListening outcome block r s) = audioContextRef s
   \<and> gainNodeRef (startListening outcome block r s) = gainNodeRef s
   \<and> animationRef (startListening outcome block r s) = animationRef s
   \<and> contexts (startListening outcome block r s) = contexts s
   \<and> gains (startListening outcome block r s) = gains s
   \<and> frames (startListening outcome block r s) = frames s
   \<and> surface (startListening outcome block r s) = surface s"
  by (cases outcome) (simp_all add: startListening_def Let_def)

theorem failed_start_changes_no_handle_witness:
  "Rejected \<noteq> Acquired \<and> NoAudioContext \<noteq> Acquired \<and> \<not> listening init
   \<and> startListening Rejected silence (render_of init) init = init\<lparr>console := [start_error]\<rparr>
   \<and> \<not> listening (startListening Rejected silence (render_of init) init)
   \<and> \<not> listening (startListening NoAudioContext silence (render_of init) init)
   \<and> mediaStreamRef (startListening NoAudioContext silence (render_of init) init) = None
   \<and> audioContextRef (startListening NoAudioContext silence (render_of init) init) = None
   \<and> gainNodeRef (startListening NoAudioContext silence (render_of init) init) = None
   \<and> console (startListening NoAudioContext silence (render_of init) init) = [start_error]"
  using failed_start_changes_no_handle [of Rejected silence "render_of init" init]
    failed_start_changes_no_handle [of NoAudioContext silence "render_of init" init]
  by (simp add: startListening_def init_def)

text \<open>
  C5 asks that every frame use the sensitivity and the gain that are current at that
  frame. The gain node follows the volume slider, but the closure \<open>draw\<close> holds the
  sensitivity of the render that started the loop: after the sliders are moved to
  volume 2 and sensitivity 1 on a running session, the gain is 2, and the next frame
  is still drawn with sensitivity 0.2, which on the block \<open>spike\<close> is not the path
  that sensitivity 1 gives.
\<close>

theorem sensitivity_frozen_at_start:
  "sensitivity retuned = 1
   \<and> gainNodeRef retuned = Some 0 \<and> gains retuned = [2]
   \<and> map (\<lambda>(handle, cl). c_sensitivity cl) (frames retuned) = [2 / 10]
   \<and> surface (animation_frame spike retuned)
       = draw_path \<lparr>width = 300, height = 70\<rparr> spike (2 / 10)
   \<and> surface (animation_frame spike retuned)
       \<noteq> draw_path \<lparr>width = 300, height = 70\<rparr> spike (sensitivity retuned)"
proof -
  have r: "retuned = started\<lparr>volume := 2, gains := [2], sensitivity := 1\<rparr>"
    by (simp add: retuned_def setSensitivity_def setVolume_def started_eq Let_def)
  have len: "length spike = length silence"
    by (simp add: spike_def silence_def)
  have f: "surface (animation_frame spike retuned)
       = draw_path \<lparr>width = 300, height = 70\<rparr> spike (2 / 10)"
    by (simp add: r started_eq animation_frame_def draw_surface
        getByteTimeDomainData_full [OF len])
  show ?thesis
    using spike_paths_differ by (simp add: f) (simp add: r started_eq)
qed

subsection \<open>Two presses on the button\<close>

lemma length_silence: "length silence = 2048"
  by (simp add: silence_def)

lemma mounted_eq:
  "mounted =
     \<lparr>devices = [\<lparr>deviceId = ''mic'', label = ''Microfone mic''\<rparr>],
      selectedDeviceId = ''mic'', listening = False, volume = 1, sensitivity = 2 / 10,
      canvasRef = Some \<lparr>width = 300, height = 70\<rparr>,
      audioContextRef = None, mediaStreamRef = None, animationRef = 0, gainNodeRef = None,
      streams = [\<lparr>device = None, live = True\<rparr>], contexts = [], gains = [], frames = [],
      next_handle = 1, surface = [], console = []\<rparr>"
  by (simp add: mounted_def loadDevices_def init_def Let_def)

lemma pressed_once_eq:
  "click Acquired silence mounted =
     \<lparr>devices = [\<lparr>deviceId = ''mic'', label = ''Microfone mic''\<rparr>],
      selectedDeviceId = ''mic'', listening = True, volume = 1, sensitivity = 2 / 10,
      canvasRef = Some \<lparr>width = 300, height = 70\<rparr>,
      audioContextRef = Some 0, mediaStreamRef = Some 1, animationRef = 1, gainNodeRef = Some 0,
      streams = [\<lparr>device = None, live = True\<rparr>, \<lparr>device = Some ''mic'', live = True\<rparr>],
      contexts = [Running], gains = [1],
      frames = [(1, \<lparr>c_canvas = Some \<lparr>width = 300, height = 70\<rparr>, c_analyser = 0,
                     c_dataArray = silence, c_sensitivity = 2 / 10\<rparr>)],
      next_handle = 2,
      surface = draw_path \<lparr>width = 300, height = 70\<rparr> silence (2 / 10),
      console = []\<rparr>"
  by (simp add: mounted_eq click_def startListening_def render_of_def draw_def
      requestAnimationFrame_def getByteTimeDomainData_full fftSize_def silence_def Let_def)

lemma pressed_twice_eq:
  "pressed_twice =
     \<lparr>devices = [\<lparr>deviceId = ''mic'', label = ''Microfone mic''\<rparr>],
      selectedDeviceId = ''mic'', listening = True, volume = 1, sensitivity = 2 / 10,
      canvasRef = Some \<lparr>width = 300, height = 70\<rparr>,
      audioContextRef = Some 1, mediaStreamRef = Some 2, animationRef = 2, gainNodeRef = Some 1,
      streams = [\<lparr>device = None, live = True\<rparr>, \<lparr>device = Some ''mic'', live = True\<rparr>,
                 \<lparr>device = Some ''mic'', live = True\<rparr>],
      contexts = [Running, Running], gains = [1, 1],
      frames = [(1, \<lparr>c_canvas = Some \<lparr>width = 300, height = 70\<rparr>, c_analyser = 0,
                     c_dataArray = silence, c_sensitivity = 2 / 10\<rparr>),
                (2, \<lparr>c_canvas = Some \<lparr>width = 300, height = 70\<rparr>, c_analyser = 1,
                     c_dataArray = silence, c_sensitivity = 2 / 10\<rparr>)],
      next_handle = 3,
      surface = draw_path \<lparr>width = 300, height = 70\<rparr> silence (2 / 10),
      console = []\<rparr>"
proof -
  have waiting: "fold button_step [Press, Press] (mounted, [])
      = (mounted, [render_of mounted, render_of mounted])"
    by (simp add: mounted_eq)
  have render: "render_of mounted =
      \<lparr>r_selectedDeviceId = ''mic'', r_listening = False, r_volume = 1,
       r_sensitivity = 2 / 10\<rparr>"
    by (simp add: mounted_eq render_of_def)
  have first: "startListening Acquired silence (render_of mounted) mounted
      = click Acquired silence mounted"
    by (simp add: click_def mounted_eq)
  have "pressed_twice
      = startListening Acquired silence (render_of mounted) (click Acquired silence mounted)"
    using waiting first by (simp add: pressed_twice_def)
  also have "\<dots> =
     \<lparr>devices = [\<lparr>deviceId = ''mic'', label = ''Microfone mic''\<rparr>],
      selectedDeviceId = ''mic'', listening = True, volume = 1, sensitivity = 2 / 10,
      canvasRef = Some \<lparr>width = 300, height = 70\<rparr>,
      audioContextRef = Some 1, mediaStreamRef = Some 2, animationRef = 2, gainNodeRef = Some 1,
      streams = [\<lparr>device = None, live = True\<rparr>, \<lparr>device = Some ''mic'', live = True\<rparr>,
                 \<lparr>device = Some ''mic'', live = True\<rparr>],
      contexts = [Running, Running], gains = [1, 1],
      frames = [(1, \<lparr>c_canvas = Some \<lparr>width = 300, height = 70\<rparr>, c_analyser = 0,
                     c_dataArray = silence, c_sensitivity = 2 / 10\<rparr>),
                (2, \<lparr>c_canvas = Some \<lparr>width = 300, height = 70\<rparr>, c_analyser = 1,
                     c_dataArray = silence, c_sensitivity = 2 / 10\<rparr>)],
      next_handle = 3,
      surface = draw_path \<lparr>width = 300, height = 70\<rparr> silence (2 / 10),
      console = []\<rparr>"
    by (simp add: pressed_once_eq render startListening_def draw_def
        requestAnimationFrame_def getByteTimeDomainData_full fftSize_def length_silence
        Let_def)
  finally show ?thesis .
qed

text \<open>
  C8 asks that a start on a session that is already active be a no-op or a clean
  restart, with never two live sessions and nothing leaked. The button offers
  \<open>startListening\<close> only while \<open>listening\<close> is false, and one press, settled, then a
  stop releases the session: its stream is stopped, its context closed, no callback is
  pending. But \<open>listening\<close> becomes true only when \<open>getUserMedia\<close> has settled: after
  two presses before that, two session streams are live, two audio contexts run and
  two \<open>draw\<close> callbacks are pending, and the handles hold the second of each. After
  \<open>stopListening\<close> the first session's stream (index 1) is still live, its context still
  runs and its callback is still pending, and no handle leads to them. The stream at
  index 0 is the one \<open>loadDevices\<close> opened.
\<close>

theorem double_press_leaks_first_session:
  "map live (streams (stopListening (click Acquired silence mounted))) = [True, False]
   \<and> contexts (stopListening (click Acquired silence mounted)) = [Closed]
   \<and> frames (stopListening (click Acquired silence mounted)) = []
   \<and> map live (streams pressed_twice) = [True, True, True]
   \<and> contexts pressed_twice = [Running, Running]
   \<and> map fst (frames pressed_twice) = [1, 2]
   \<and> mediaStreamRef pressed_twice = Some 2 \<and> audioContextRef pressed_twice = Some 1
   \<and> animationRef pressed_twice = 2
   \<and> map live (streams (stopListening pressed_twice)) = [True, True, False]
   \<and> contexts (stopListening pressed_twice) = [Running, Closed]
   \<and> map fst (frames (stopListening pressed_twice)) = [1]
   \<and> mediaStreamRef (stopListening pressed_twice) = None
   \<and> audioContextRef (stopListening pressed_twice) = None
   \<and> \<not> listening (stopListening pressed_twice)"
  by (simp add: pressed_once_eq pressed_twice_eq stopListening_def stop_tracks_def
      close_context_def cancelAnimationFrame_def Let_def)

end
